theory Spec2Isabelle
  imports Complex_Main "HOL-Library.Word" "HOL-Library.Monad_Syntax"
begin

section \<open>Host scoring of the renter's host database\<close>

text \<open>
  The theory embeds the weight function of package \<open>hostdb\<close> (the seven adjustments,
  \<open>calculateHostWeightFn\<close> and \<open>EstimateHostScore\<close>) and the classification of archived
  contracts done by \<open>renterContractsHandler\<close> of package \<open>api\<close>.

  Conventions of the embedding.
  \<^item> \<open>uint64\<close> and \<open>types.BlockHeight\<close> are \<open>64 word\<close>; \<open>time.Duration\<close> is a
    \<open>64 word\<close> read in two's complement by \<open>sint\<close>; arithmetic on them wraps as in Go.
  \<^item> \<open>types.Currency\<close> is a natural number of unbounded size.
  \<^item> A Go run-time panic is the result \<open>None\<close>.
  \<^item> A \<open>float64\<close> is either a real number or one of the three special values of
    IEEE 754. Finite arithmetic is exact: rounding to 53 bits, overflow to an infinity
    and the sign of zero are not represented.
  \<^item> The release build is modelled: \<open>build.DEBUG\<close> is false, so \<open>build.Critical\<close>
    and \<open>log.Critical\<close> only write a log line.
\<close>

subsection \<open>Machine types\<close>

type_synonym uint64 = "64 word"
type_synonym BlockHeight = "64 word"
type_synonym Duration = "64 word"
type_synonym Currency = nat

datatype float64 = Finite real | PosInf | NegInf | NaN

text \<open>The three build flavours that \<open>build.Select\<close> chooses between.\<close>

datatype Release = Standard | Dev | Testing

subsection \<open>Arithmetic on \<open>float64\<close>\<close>

text \<open>
  The operators follow IEEE 754 on the special values. A zero is always the positive
  zero, which is the only one the functions below can produce as a divisor.
\<close>

definition f_of_uint64 :: "uint64 \<Rightarrow> float64" where
  "f_of_uint64 w = Finite (real (unat w))"

definition f_of_int64 :: "64 word \<Rightarrow> float64" where
  "f_of_int64 w = Finite (real_of_int (sint w))"

definition f_of_len :: "nat \<Rightarrow> float64" where
  "f_of_len n = Finite (real n)"

fun f_neg :: "float64 \<Rightarrow> float64" where
  "f_neg (Finite x) = Finite (- x)"
| "f_neg PosInf = NegInf"
| "f_neg NegInf = PosInf"
| "f_neg NaN = NaN"

fun f_add :: "float64 \<Rightarrow> float64 \<Rightarrow> float64" where
  "f_add (Finite x) (Finite y) = Finite (x + y)"
| "f_add NaN y = NaN"
| "f_add x NaN = NaN"
| "f_add PosInf NegInf = NaN"
| "f_add NegInf PosInf = NaN"
| "f_add PosInf y = PosInf"
| "f_add NegInf y = NegInf"
| "f_add (Finite x) PosInf = PosInf"
| "f_add (Finite x) NegInf = NegInf"

definition f_sub :: "float64 \<Rightarrow> float64 \<Rightarrow> float64" where
  "f_sub x y = f_add x (f_neg y)"

text \<open>The sign of a product or quotient with an infinite operand.\<close>

definition signedInf :: "bool \<Rightarrow> float64" where
  "signedInf positive = (if positive then PosInf else NegInf)"

fun f_mul :: "float64 \<Rightarrow> float64 \<Rightarrow> float64" where
  "f_mul (Finite x) (Finite y) = Finite (x * y)"
| "f_mul NaN y = NaN"
| "f_mul x NaN = NaN"
| "f_mul PosInf PosInf = PosInf"
| "f_mul PosInf NegInf = NegInf"
| "f_mul NegInf PosInf = NegInf"
| "f_mul NegInf NegInf = PosInf"
| "f_mul PosInf (Finite y) = (if y = 0 then NaN else signedInf (0 < y))"
| "f_mul NegInf (Finite y) = (if y = 0 then NaN else signedInf (y < 0))"
| "f_mul (Finite x) PosInf = (if x = 0 then NaN else signedInf (0 < x))"
| "f_mul (Finite x) NegInf = (if x = 0 then NaN else signedInf (x < 0))"

fun f_div :: "float64 \<Rightarrow> float64 \<Rightarrow> float64" where
  "f_div (Finite x) (Finite y) =
     (if y = 0 then (if x = 0 then NaN else signedInf (0 < x)) else Finite (x / y))"
| "f_div NaN y = NaN"
| "f_div x NaN = NaN"
| "f_div (Finite x) PosInf = Finite 0"
| "f_div (Finite x) NegInf = Finite 0"
| "f_div PosInf (Finite y) = signedInf (0 \<le> y)"
| "f_div NegInf (Finite y) = signedInf (y < 0)"
| "f_div PosInf y = NaN"
| "f_div NegInf y = NaN"

text \<open>Go's \<open><\<close> on \<open>float64\<close>: false as soon as an operand is NaN.\<close>

fun f_less :: "float64 \<Rightarrow> float64 \<Rightarrow> bool" where
  "f_less (Finite x) (Finite y) = (x < y)"
| "f_less NaN y = False"
| "f_less x NaN = False"
| "f_less x NegInf = False"
| "f_less PosInf y = False"
| "f_less NegInf y = True"
| "f_less (Finite x) PosInf = True"

text \<open>\<open>math.Min\<close>: an infinite negative operand wins, then NaN, then the smaller one.\<close>

fun mathMin :: "float64 \<Rightarrow> float64 \<Rightarrow> float64" where
  "mathMin NegInf y = NegInf"
| "mathMin x NegInf = NegInf"
| "mathMin NaN y = NaN"
| "mathMin x NaN = NaN"
| "mathMin (Finite x) (Finite y) = Finite (min x y)"
| "mathMin PosInf y = y"
| "mathMin (Finite x) PosInf = Finite x"

definition is_integer :: "real \<Rightarrow> bool" where
  "is_integer y = (of_int \<lfloor>y\<rfloor> = y)"

definition is_odd_integer :: "real \<Rightarrow> bool" where
  "is_odd_integer y = (is_integer y \<and> odd \<lfloor>y\<rfloor>)"

text \<open>
  \<open>math.Pow\<close>, with the special cases that its documentation lists: any base to the
  power 0 is 1, 1 to any power is 1, a negative finite base with a finite exponent that
  is not an integer gives NaN.
\<close>

fun mathPow :: "float64 \<Rightarrow> float64 \<Rightarrow> float64" where
  "mathPow x (Finite y) =
     (if y = 0 then Finite 1
      else case x of
        Finite a \<Rightarrow>
          (if a = 0 then (if y < 0 then PosInf else Finite 0)
           else if 0 < a then Finite (a powr y)
           else if is_integer y then Finite (a powi \<lfloor>y\<rfloor>)
           else NaN)
      | PosInf \<Rightarrow> (if 0 < y then PosInf else Finite 0)
      | NegInf \<Rightarrow> (if 0 < y then (if is_odd_integer y then NegInf else PosInf) else Finite 0)
      | NaN \<Rightarrow> NaN)"
| "mathPow x PosInf =
     (case x of
        Finite a \<Rightarrow> (if \<bar>a\<bar> = 1 then Finite 1 else if 1 < \<bar>a\<bar> then PosInf else Finite 0)
      | PosInf \<Rightarrow> PosInf
      | NegInf \<Rightarrow> PosInf
      | NaN \<Rightarrow> NaN)"
| "mathPow x NegInf =
     (case x of
        Finite a \<Rightarrow> (if \<bar>a\<bar> = 1 then Finite 1 else if 1 < \<bar>a\<bar> then Finite 0 else PosInf)
      | PosInf \<Rightarrow> Finite 0
      | NegInf \<Rightarrow> Finite 0
      | NaN \<Rightarrow> NaN)"
| "mathPow x NaN = (if x = Finite 1 then Finite 1 else NaN)"

subsection \<open>Currency\<close>

text \<open>
  Modelled from the spec: the methods of \<open>types.Currency\<close>, whose package is not among
  the sources. The spec makes a currency value a non-negative integer of arbitrary
  precision and has a product with a float truncated. The type is built on \<open>big.Int\<close>,
  whose division panics on a zero divisor (the guards at the head of
  \<open>collateralAdjustments\<close> are there, in the words of the source, to avoid divide by zero
  errors); \<open>Uint64\<close> yields an error, and the value 0,
  when the amount does not fit 64 bits; \<open>MulFloat\<close> reports a negative factor through
  \<open>build.Critical\<close> and leaves the zero value, and dereferences the nil pointer that
  \<open>big.Rat.SetFloat64\<close> returns for a factor that is not finite.
\<close>

definition Mul64 :: "Currency \<Rightarrow> uint64 \<Rightarrow> Currency" where
  "Mul64 x y = x * unat y"

definition Div64 :: "Currency \<Rightarrow> uint64 \<Rightarrow> Currency option" where
  "Div64 x y = (if y = 0 then None else Some (x div unat y))"

definition Div :: "Currency \<Rightarrow> Currency \<Rightarrow> Currency option" where
  "Div x y = (if y = 0 then None else Some (x div y))"

definition MaxUint64 :: uint64 where
  "MaxUint64 = 18446744073709551615"

text \<open>The second component says whether the error is set.\<close>

definition Uint64 :: "Currency \<Rightarrow> uint64 \<times> bool" where
  "Uint64 c = (if unat MaxUint64 < c then (0, True) else (of_nat c, False))"

fun MulFloat :: "Currency \<Rightarrow> float64 \<Rightarrow> Currency option" where
  "MulFloat x (Finite y) = (if y < 0 then Some 0 else Some (nat \<lfloor>real x * y\<rfloor>))"
| "MulFloat x NegInf = Some 0"
| "MulFloat x PosInf = None"
| "MulFloat x NaN = None"

subsection \<open>Host entries and allowances\<close>

text \<open>
  Modelled from the spec: the records \<open>modules.HostDBEntry\<close>, \<open>modules.HostDBScan\<close> and
  \<open>modules.Allowance\<close>, which are declared outside the sources. They keep the fields
  that the functions below read, under the names the functions use, with the types of
  the spec's data model: currency amounts, cumulative durations, counts of successful and
  failed interactions, and a scan history of timestamps with a success bit. A timestamp
  is an instant in nanoseconds.
\<close>

record HostDBScan =
  Timestamp :: int
  Success :: bool

record HostDBEntry =
  Collateral :: Currency
  MaxCollateral :: Currency
  ContractPrice :: Currency
  StoragePrice :: Currency
  UploadBandwidthPrice :: Currency
  DownloadBandwidthPrice :: Currency
  RemainingStorage :: uint64
  Version :: string
  FirstSeen :: BlockHeight
  HistoricDowntime :: Duration
  HistoricUptime :: Duration
  HistoricSuccessfulInteractions :: nat
  HistoricFailedInteractions :: nat
  ScanHistory :: "HostDBScan list"

record Allowance =
  Funds :: Currency
  Hosts :: uint64
  Period :: BlockHeight

text \<open>
  What the functions read of the receiver \<open>hdb\<close>: the block height, the weight function
  in force and the hosts that \<open>hdb.ActiveHosts()\<close> returns.
\<close>

record HostDB =
  blockHeight :: BlockHeight
  weightFunc :: "HostDBEntry \<Rightarrow> Currency option"
  ActiveHosts :: "HostDBEntry list"

record HostScoreBreakdown =
  Score :: Currency
  ConversionRate :: float64
  AgeAdjustment :: float64
  BurnAdjustment :: float64
  CollateralAdjustment :: float64
  InteractionAdjustment :: float64
  PriceAdjustment :: float64
  StorageRemainingAdjustment :: float64
  UptimeAdjustment :: float64
  VersionAdjustment :: float64

subsection \<open>Constants of the package\<close>

text \<open>
  \<open>types.SiacoinPrecision\<close> is declared outside the sources; the definitions that depend
  on it take it as the parameter \<open>prec\<close>.
\<close>

definition baseWeight :: Currency where
  "baseWeight = 10 ^ 80"

definition priceExponentiation :: float64 where
  "priceExponentiation = Finite 5"

definition collateralExponentiationLarge :: float64 where
  "collateralExponentiationLarge = Finite 0.65"

definition collateralExponentiationSmall :: float64 where
  "collateralExponentiationSmall = f_add priceExponentiation (Finite 0.5)"

definition tbMonth :: uint64 where
  "tbMonth = 4032 * 1000000000000"

text \<open>Both divisors are non-zero constants, so neither initialisation can panic.\<close>

definition minTotalPrice :: "Currency \<Rightarrow> Currency" where
  "minTotalPrice prec = Mul64 prec 1 div unat tbMonth"

definition priceDivNormalization :: "Currency \<Rightarrow> Currency" where
  "priceDivNormalization prec = prec div 100000 div unat tbMonth"

definition requiredStorage :: "Release \<Rightarrow> uint64" where
  "requiredStorage b = (case b of Standard \<Rightarrow> 20000000000 | Dev \<Rightarrow> 1000000 | Testing \<Rightarrow> 1000)"

subsection \<open>Collateral\<close>

text \<open>The guards at the head of \<open>collateralAdjustments\<close>.\<close>

definition collateralGuards :: "Allowance \<Rightarrow> uint64 \<Rightarrow> Allowance \<times> uint64" where
  "collateralGuards allowance expectedStorage =
    (let allowance = (if Hosts allowance = 0 then allowance\<lparr>Hosts := 1\<rparr> else allowance);
         allowance = (if Period allowance = 0 then allowance\<lparr>Period := 1\<rparr> else allowance);
         expectedStorage = (if expectedStorage = 0 then 1 else expectedStorage)
     in (allowance, expectedStorage))"

text \<open>
  The local \<open>hostCollateral\<close> of \<open>collateralAdjustments\<close>, as a function of the guarded
  allowance and expected storage.
\<close>

definition hostCollateralOf :: "HostDBEntry \<Rightarrow> Allowance \<Rightarrow> uint64 \<Rightarrow> Currency option" where
  "hostCollateralOf entry allowance expectedStorage =
    (let hostCollateral = Collateral entry;
         requiredCollateral = Mul64 (Mul64 (Collateral entry) (Period allowance)) expectedStorage
     in do {
       half \<leftarrow> Div64 (MaxCollateral entry) 2;
       if requiredCollateral < half
       then do {
         perPeriod \<leftarrow> Div64 (MaxCollateral entry) (Period allowance);
         perByte \<leftarrow> Div64 perPeriod expectedStorage;
         Div64 perByte 2
       }
       else Some hostCollateral
     })"

definition collateralAdjustments ::
    "Currency \<Rightarrow> HostDBEntry \<Rightarrow> Allowance \<Rightarrow> uint64 \<Rightarrow> float64 option" where
  "collateralAdjustments prec entry allowance0 expectedStorage0 =
    (let (allowance, expectedStorage) = collateralGuards allowance0 expectedStorage0
     in do {
       hostCollateral \<leftarrow> hostCollateralOf entry allowance expectedStorage;
       perHost \<leftarrow> Div64 (Funds allowance) (Hosts allowance);
       perPeriod \<leftarrow> Div64 perHost (Period allowance);
       perByte \<leftarrow> Div64 perPeriod expectedStorage;
       cutoff \<leftarrow> Div64 perByte 3;
       let cutoff = (if cutoff < hostCollateral then hostCollateral else cutoff);
       collateralNorm \<leftarrow> Div hostCollateral (priceDivNormalization prec);
       let collateral64 = fst (Uint64 collateralNorm);
       cutoffNorm \<leftarrow> Div cutoff (priceDivNormalization prec);
       let cutoff64 = fst (Uint64 cutoffNorm);
       let cutoff64 = (if cutoff64 = 0 then 1 else cutoff64);
       let ratio = f_div (f_of_uint64 collateral64) (f_of_uint64 cutoff64);
       let smallWeight = mathPow (f_of_uint64 cutoff64) collateralExponentiationSmall;
       let largeWeight = mathPow ratio collateralExponentiationLarge;
       let weight = f_mul smallWeight largeWeight;
       Some weight
     })"

subsection \<open>Interactions\<close>

definition interactionAdjustments :: "HostDBEntry \<Rightarrow> float64" where
  "interactionAdjustments entry =
    (let hsi = HistoricSuccessfulInteractions entry + 30;
         hfi = HistoricFailedInteractions entry + 1;
         ratio = f_div (Finite (real hsi)) (Finite (real (hsi + hfi)))
     in mathPow ratio (Finite 15))"

subsection \<open>Price\<close>

text \<open>The block guarded by \<open>build.DEBUG\<close> is not part of the release build.\<close>

definition priceAdjustments ::
    "Currency \<Rightarrow> HostDBEntry \<Rightarrow> Allowance \<Rightarrow> uint64 \<Rightarrow> uint64 \<Rightarrow> uint64 \<Rightarrow> float64 option" where
  "priceAdjustments prec entry allowance expectedStorage expectedUploadFrequency expectedDownloadFrequency =
    do {
      contractPerPeriod \<leftarrow> Div64 (ContractPrice entry) (Period allowance);
      adjustedContractPrice \<leftarrow> Div64 contractPerPeriod expectedStorage;
      adjustedUploadPrice \<leftarrow> Div64 (UploadBandwidthPrice entry) expectedUploadFrequency;
      downloadPerFrequency \<leftarrow> Div64 (DownloadBandwidthPrice entry) expectedDownloadFrequency;
      adjustedDownloadPrice \<leftarrow> Div64 downloadPerFrequency 3;
      let totalPrice = StoragePrice entry + adjustedContractPrice + adjustedUploadPrice + adjustedDownloadPrice;
      let totalPrice = (if totalPrice < minTotalPrice prec then minTotalPrice prec else totalPrice);
      baseNorm \<leftarrow> Div (minTotalPrice prec) (priceDivNormalization prec);
      let baseU64 = (if snd (Uint64 baseNorm) then MaxUint64 else fst (Uint64 baseNorm));
      actualNorm \<leftarrow> Div totalPrice (priceDivNormalization prec);
      let actualU64 = (if snd (Uint64 actualNorm) then MaxUint64 else fst (Uint64 actualNorm));
      let base = f_of_uint64 baseU64;
      let actual = f_of_uint64 actualU64;
      Some (mathPow (f_div base actual) priceExponentiation)
    }"

subsection \<open>Storage remaining\<close>

definition storageRemainingAdjustments :: "Release \<Rightarrow> HostDBEntry \<Rightarrow> float64" where
  "storageRemainingAdjustments b entry =
    (let base = (1::real);
         base = (if RemainingStorage entry < 200 * requiredStorage b then base / 2 else base);
         base = (if RemainingStorage entry < 150 * requiredStorage b then base / 2 else base);
         base = (if RemainingStorage entry < 100 * requiredStorage b then base / 2 else base);
         base = (if RemainingStorage entry < 80 * requiredStorage b then base / 2 else base);
         base = (if RemainingStorage entry < 40 * requiredStorage b then base / 2 else base);
         base = (if RemainingStorage entry < 20 * requiredStorage b then base / 2 else base);
         base = (if RemainingStorage entry < 15 * requiredStorage b then base / 2 else base);
         base = (if RemainingStorage entry < 10 * requiredStorage b then base / 2 else base);
         base = (if RemainingStorage entry < 5 * requiredStorage b then base / 2 else base);
         base = (if RemainingStorage entry < 3 * requiredStorage b then base / 2 else base);
         base = (if RemainingStorage entry < 2 * requiredStorage b then base / 2 else base);
         base = (if RemainingStorage entry < requiredStorage b then base / 2 else base)
     in Finite base)"

text \<open>The thresholds of the cascade, in the order of the source.\<close>

definition storageThresholds :: "uint64 list" where
  "storageThresholds = [200, 150, 100, 80, 40, 20, 15, 10, 5, 3, 2, 1]"

subsection \<open>Version\<close>

text \<open>The penalties of the source are inside a comment; what runs is this.\<close>

definition versionAdjustments :: "HostDBEntry \<Rightarrow> float64" where
  "versionAdjustments entry = (let base = Finite 1 in base)"

definition SmallestNonzeroFloat64 :: float64 where
  "SmallestNonzeroFloat64 = Finite (1 / 2 ^ 1074)"

subsection \<open>Lifetime\<close>

definition lifetimeAdjustments :: "HostDB \<Rightarrow> HostDBEntry \<Rightarrow> float64" where
  "lifetimeAdjustments hdb entry =
    (let base = (1::real)
     in if FirstSeen entry \<le> blockHeight hdb
        then (let age = blockHeight hdb - FirstSeen entry;
                  base = (if age < 12000 then base * 2 / 3 else base);
                  base = (if age < 6000 then base / 2 else base);
                  base = (if age < 4000 then base / 2 else base);
                  base = (if age < 2000 then base / 2 else base);
                  base = (if age < 1000 then base / 3 else base);
                  base = (if age < 576 then base / 3 else base);
                  base = (if age < 288 then base / 3 else base);
                  base = (if age < 144 then base / 3 else base)
              in Finite base)
        else Finite base)"

subsection \<open>Uptime\<close>

text \<open>
  \<open>time.Time.After\<close> and \<open>time.Time.Sub\<close> on instants in nanoseconds; \<open>Sub\<close> saturates
  at the ends of the range of \<open>time.Duration\<close>.
\<close>

definition After :: "int \<Rightarrow> int \<Rightarrow> bool" where
  "After t u = (u < t)"

definition Sub :: "int \<Rightarrow> int \<Rightarrow> Duration" where
  "Sub t u =
    (let d = t - u
     in if 2 ^ 63 - 1 < d then word_of_int (2 ^ 63 - 1)
        else if d < - (2 ^ 63) then word_of_int (- (2 ^ 63))
        else word_of_int d)"

text \<open>
  The loop over \<open>entry.ScanHistory[1:]\<close>; the state is \<open>recentTime\<close>, \<open>recentSuccess\<close>,
  \<open>uptime\<close> and \<open>downtime\<close>, and the result is the last two.
\<close>

fun scanLoop :: "HostDBScan list \<Rightarrow> int \<Rightarrow> bool \<Rightarrow> Duration \<Rightarrow> Duration \<Rightarrow> Duration \<times> Duration" where
  "scanLoop [] recentTime recentSuccess uptime downtime = (uptime, downtime)"
| "scanLoop (scan # scans) recentTime recentSuccess uptime downtime =
    (if After recentTime (Timestamp scan)
     then scanLoop scans recentTime recentSuccess uptime downtime
     else scanLoop scans (Timestamp scan) (Success scan)
            (if recentSuccess then uptime + Sub (Timestamp scan) recentTime else uptime)
            (if recentSuccess then downtime else downtime + Sub (Timestamp scan) recentTime))"

text \<open>
  The totals that the loop leaves in \<open>uptime\<close> and \<open>downtime\<close>. The source reaches the
  loop only with three scans or more, so that the first scan exists.
\<close>

definition measuredTimes :: "HostDBEntry \<Rightarrow> Duration \<times> Duration" where
  "measuredTimes entry =
     scanLoop (tl (ScanHistory entry)) (Timestamp (ScanHistory entry ! 0)) (Success (ScanHistory entry ! 0))
       (HistoricUptime entry) (HistoricDowntime entry)"

definition uptimeAdjustments :: "HostDBEntry \<Rightarrow> float64" where
  "uptimeAdjustments entry =
    (if length (ScanHistory entry) = 0 then Finite 0.25
     else if length (ScanHistory entry) = 1
     then (if Success (ScanHistory entry ! 0) then Finite 0.75 else Finite 0.25)
     else if length (ScanHistory entry) = 2
     then (if Success (ScanHistory entry ! 0) \<and> Success (ScanHistory entry ! 1) then Finite 0.85
           else if Success (ScanHistory entry ! 0) \<or> Success (ScanHistory entry ! 1) then Finite 0.50
           else Finite 0.05)
     else
       (let (uptime, downtime) = measuredTimes entry
        in if uptime = 0 \<and> downtime = 0 then Finite 0.001
           else
             (let uptimeRatio = f_div (f_of_int64 uptime) (f_of_int64 (uptime + downtime));
                  uptimeRatio = (if f_less (Finite 0.98) uptimeRatio then Finite 0.98 else uptimeRatio);
                  uptimeRatio = f_add uptimeRatio (Finite 0.02);
                  allowedDowntime = f_mul (Finite 0.03) (f_of_len (length (ScanHistory entry)));
                  uptimeRatio = (if f_less uptimeRatio (f_sub (Finite 1) allowedDowntime)
                                 then f_sub (Finite 1) allowedDowntime else uptimeRatio);
                  exp = f_mul (Finite 200) (mathMin (f_sub (Finite 1) uptimeRatio) (Finite 0.30))
              in mathPow uptimeRatio exp)))"

subsection \<open>The weight function\<close>

definition expectedStorage :: uint64 where
  "expectedStorage = 25000000000"

definition expectedUploadFrequency :: uint64 where
  "expectedUploadFrequency = 24192"

definition expectedDownloadFrequency :: uint64 where
  "expectedDownloadFrequency = 12096"

definition calculateHostWeightFn ::
    "Currency \<Rightarrow> Release \<Rightarrow> HostDB \<Rightarrow> Allowance \<Rightarrow> HostDBEntry \<Rightarrow> Currency option" where
  "calculateHostWeightFn prec b hdb allowance entry =
    do {
      collateralReward \<leftarrow> collateralAdjustments prec entry allowance expectedStorage;
      let interactionPenalty = interactionAdjustments entry;
      let lifetimePenalty = lifetimeAdjustments hdb entry;
      pricePenalty \<leftarrow> priceAdjustments prec entry allowance expectedStorage
                        expectedUploadFrequency expectedDownloadFrequency;
      let storageRemainingPenalty = storageRemainingAdjustments b entry;
      let uptimePenalty = uptimeAdjustments entry;
      let versionPenalty = versionAdjustments entry;
      let fullPenalty =
            f_mul (f_mul (f_mul (f_mul (f_mul (f_mul collateralReward interactionPenalty)
              lifetimePenalty) pricePenalty) storageRemainingPenalty) uptimePenalty) versionPenalty;
      weight \<leftarrow> MulFloat baseWeight fullPenalty;
      if weight = 0 then Some 1 else Some weight
    }"

subsection \<open>Estimated score\<close>

fun totalScoreOf :: "(HostDBEntry \<Rightarrow> Currency option) \<Rightarrow> HostDBEntry list \<Rightarrow> Currency \<Rightarrow> Currency option" where
  "totalScoreOf f [] totalScore = Some totalScore"
| "totalScoreOf f (h # hs) totalScore = do { w \<leftarrow> f h; totalScoreOf f hs (totalScore + w) }"

definition calculateConversionRate :: "HostDB \<Rightarrow> Currency \<Rightarrow> float64 option" where
  "calculateConversionRate hdb score =
    do {
      totalScore \<leftarrow> totalScoreOf (weightFunc hdb) (ActiveHosts hdb) 0;
      let totalScore = (if totalScore = 0 then 1 else totalScore);
      let conversionRate = Finite (real (Mul64 score 50) / real totalScore);
      let conversionRate = (if f_less (Finite 100) conversionRate then Finite 100 else conversionRate);
      Some conversionRate
    }"

text \<open>
  The composite literal of \<open>EstimateHostScore\<close> names no \<open>InteractionAdjustment\<close>, which
  therefore keeps the zero value of its type.
\<close>

definition EstimateHostScore ::
    "Currency \<Rightarrow> Release \<Rightarrow> HostDB \<Rightarrow> HostDBEntry \<Rightarrow> Allowance \<Rightarrow> HostScoreBreakdown option" where
  "EstimateHostScore prec b hdb entry allowance =
    do {
      collateralReward \<leftarrow> collateralAdjustments prec entry allowance expectedStorage;
      pricePenalty \<leftarrow> priceAdjustments prec entry allowance expectedStorage
                        expectedUploadFrequency expectedDownloadFrequency;
      let storageRemainingPenalty = storageRemainingAdjustments b entry;
      let versionPenalty = versionAdjustments entry;
      let fullPenalty =
            f_mul (f_mul (f_mul collateralReward pricePenalty) storageRemainingPenalty) versionPenalty;
      estimatedScore \<leftarrow> MulFloat baseWeight fullPenalty;
      let estimatedScore = (if estimatedScore = 0 then 1 else estimatedScore);
      conversionRate \<leftarrow> calculateConversionRate hdb estimatedScore;
      Some \<lparr>Score = estimatedScore,
            ConversionRate = conversionRate,
            AgeAdjustment = Finite 1,
            BurnAdjustment = Finite 1,
            CollateralAdjustment = collateralReward,
            InteractionAdjustment = Finite 0,
            PriceAdjustment = pricePenalty,
            StorageRemainingAdjustment = storageRemainingPenalty,
            UptimeAdjustment = Finite 1,
            VersionAdjustment = versionPenalty\<rparr>
    }"

subsection \<open>The contracts listing\<close>

text \<open>
  Modelled from the spec: the record \<open>Contract\<close> of a contract as the renter holds it
  (\<open>modules.RenterContract\<close>, declared outside the sources), after the contract of the
  spec's data model. \<open>RenterContract\<close> is the contract as the API reports it. Of the
  fields that \<open>renterContractsHandler\<close> copies one by one, the records keep the
  identifier, the two heights, the fees and the two utility flags.
\<close>

record Contract =
  ContractID :: nat
  ContractStartHeight :: BlockHeight
  ContractEndHeight :: BlockHeight
  TxnFee :: Currency
  ContractFee :: Currency
  UtilityGoodForUpload :: bool
  UtilityGoodForRenew :: bool

record RenterContract =
  ID :: nat
  StartHeight :: BlockHeight
  EndHeight :: BlockHeight
  Fees :: Currency
  GoodForUpload :: bool
  GoodForRenew :: bool

record RenterContracts =
  Contracts :: "RenterContract list"
  ActiveContracts :: "RenterContract list"
  InactiveContracts :: "RenterContract list"
  ExpiredContracts :: "RenterContract list"

definition buildContract :: "Contract \<Rightarrow> RenterContract" where
  "buildContract c =
    \<lparr>ID = ContractID c,
     StartHeight = ContractStartHeight c,
     EndHeight = ContractEndHeight c,
     Fees = TxnFee c + ContractFee c,
     GoodForUpload = UtilityGoodForUpload c,
     GoodForRenew = UtilityGoodForRenew c\<rparr>"

text \<open>The loop over \<open>api.renter.Contracts()\<close>.\<close>

fun currentLoop :: "bool \<Rightarrow> Contract list \<Rightarrow> RenterContracts \<Rightarrow> RenterContracts" where
  "currentLoop inactive [] r = r"
| "currentLoop inactive (c # cs) r =
    (let contract = buildContract c;
         r = (if UtilityGoodForRenew c
              then r\<lparr>ActiveContracts := ActiveContracts r @ [contract]\<rparr>
              else if inactive \<and> \<not> UtilityGoodForRenew c
              then r\<lparr>InactiveContracts := InactiveContracts r @ [contract]\<rparr>
              else r);
         r = r\<lparr>Contracts := Contracts r @ [contract]\<rparr>
     in currentLoop inactive cs r)"

text \<open>The loop over \<open>api.renter.OldContracts()\<close>, the archive.\<close>

fun oldLoop :: "bool \<Rightarrow> bool \<Rightarrow> BlockHeight \<Rightarrow> Contract list \<Rightarrow> RenterContracts \<Rightarrow> RenterContracts" where
  "oldLoop inactive expired height [] r = r"
| "oldLoop inactive expired height (c # cs) r =
    (let contract = buildContract c;
         r = (if expired \<and> ContractEndHeight c < height
              then r\<lparr>ExpiredContracts := ExpiredContracts r @ [contract]\<rparr>
              else if inactive \<and> height \<le> ContractEndHeight c
              then r\<lparr>InactiveContracts := InactiveContracts r @ [contract]\<rparr>
              else r)
     in oldLoop inactive expired height cs r)"

text \<open>
  The handler after its two flags have been parsed: \<open>height\<close> is \<open>api.cs.Height()\<close>,
  \<open>current\<close> is \<open>api.renter.Contracts()\<close> and \<open>old\<close> is \<open>api.renter.OldContracts()\<close>.
\<close>

definition renterContractsHandler ::
    "bool \<Rightarrow> bool \<Rightarrow> BlockHeight \<Rightarrow> Contract list \<Rightarrow> Contract list \<Rightarrow> RenterContracts" where
  "renterContractsHandler inactive expired height current old =
    (let r = \<lparr>Contracts = [], ActiveContracts = [], InactiveContracts = [], ExpiredContracts = []\<rparr>;
         r = currentLoop inactive current r;
         r = (if expired \<or> inactive then oldLoop inactive expired height old r else r)
     in r)"

subsection \<open>The spec's wording of the collateral cap\<close>

text \<open>
  The collateral used for scoring as the spec words it: the smaller of the advertised
  collateral and the maximum collateral spread over twice the period and the expected
  storage.
\<close>

definition spec_hostCollateral :: "HostDBEntry \<Rightarrow> Allowance \<Rightarrow> uint64 \<Rightarrow> Currency" where
  "spec_hostCollateral entry allowance es =
     min (Collateral entry) (MaxCollateral entry div (2 * unat (Period allowance) * unat es))"

subsection \<open>The spec's wording of the price factor, and the normalised form\<close>

text \<open>
  The price factor as the spec words it: the four prices are combined by exact division,
  and the factor is the fifth power of the minimum total price over the clamped total.
\<close>

definition spec_totalPrice :: "HostDBEntry \<Rightarrow> Allowance \<Rightarrow> uint64 \<Rightarrow> uint64 \<Rightarrow> uint64 \<Rightarrow> real" where
  "spec_totalPrice entry allowance es uf df =
     real (StoragePrice entry)
     + real (ContractPrice entry) / (real (unat (Period allowance)) * real (unat es))
     + real (UploadBandwidthPrice entry) / real (unat uf)
     + (real (DownloadBandwidthPrice entry) / real (unat df)) / 3"

definition spec_priceFactor ::
    "Currency \<Rightarrow> HostDBEntry \<Rightarrow> Allowance \<Rightarrow> uint64 \<Rightarrow> uint64 \<Rightarrow> uint64 \<Rightarrow> real" where
  "spec_priceFactor prec entry allowance es uf df =
     (real (minTotalPrice prec)
      / max (spec_totalPrice entry allowance es uf df) (real (minTotalPrice prec))) ^ 5"

text \<open>
  The amended wording: every division truncates, the minimum and the clamped total are
  divided by the normalisation constant, and a quotient beyond 64 bits counts as
  \<open>2\<^sup>6\<^sup>4 - 1\<close>.
\<close>

definition saturate64 :: "nat \<Rightarrow> nat" where
  "saturate64 n = min n (2 ^ 64 - 1)"

definition totalPrice :: "HostDBEntry \<Rightarrow> Allowance \<Rightarrow> uint64 \<Rightarrow> uint64 \<Rightarrow> uint64 \<Rightarrow> Currency" where
  "totalPrice entry allowance es uf df =
     StoragePrice entry
     + ContractPrice entry div (unat (Period allowance) * unat es)
     + UploadBandwidthPrice entry div unat uf
     + DownloadBandwidthPrice entry div (unat df * 3)"

definition normalisedPriceFactor ::
    "Currency \<Rightarrow> HostDBEntry \<Rightarrow> Allowance \<Rightarrow> uint64 \<Rightarrow> uint64 \<Rightarrow> uint64 \<Rightarrow> real" where
  "normalisedPriceFactor prec entry allowance es uf df =
     (real (saturate64 (minTotalPrice prec div priceDivNormalization prec))
      / real (saturate64 (max (totalPrice entry allowance es uf df) (minTotalPrice prec)
                          div priceDivNormalization prec))) ^ 5"

subsection \<open>The estimated score as the spec words it\<close>

text \<open>
  The full weight with only the age and the uptime factor replaced by 1, every other
  factor being the one of \<open>calculateHostWeightFn\<close>.
\<close>

definition spec_estimatedScore ::
    "Currency \<Rightarrow> Release \<Rightarrow> HostDB \<Rightarrow> HostDBEntry \<Rightarrow> Allowance \<Rightarrow> Currency option" where
  "spec_estimatedScore prec b hdb entry allowance =
    do {
      collateralReward \<leftarrow> collateralAdjustments prec entry allowance expectedStorage;
      let interactionPenalty = interactionAdjustments entry;
      let lifetimePenalty = Finite 1;
      pricePenalty \<leftarrow> priceAdjustments prec entry allowance expectedStorage
                        expectedUploadFrequency expectedDownloadFrequency;
      let storageRemainingPenalty = storageRemainingAdjustments b entry;
      let uptimePenalty = Finite 1;
      let versionPenalty = versionAdjustments entry;
      let fullPenalty =
            f_mul (f_mul (f_mul (f_mul (f_mul (f_mul collateralReward interactionPenalty)
              lifetimePenalty) pricePenalty) storageRemainingPenalty) uptimePenalty) versionPenalty;
      weight \<leftarrow> MulFloat baseWeight fullPenalty;
      if weight = 0 then Some 1 else Some weight
    }"

subsection \<open>Predicates on results\<close>

definition finite_nonneg :: "float64 \<Rightarrow> bool" where
  "finite_nonneg x =
     (case x of Finite r \<Rightarrow> 0 \<le> r | PosInf \<Rightarrow> False | NegInf \<Rightarrow> False | NaN \<Rightarrow> False)"

text \<open>The weight that the source returns for a finite product \<open>y\<close> of the factors.\<close>

definition clampWeight :: "real \<Rightarrow> Currency" where
  "clampWeight y =
     (if nat \<lfloor>real baseWeight * y\<rfloor> = 0 then 1 else nat \<lfloor>real baseWeight * y\<rfloor>)"

subsection \<open>Concrete inputs\<close>

text \<open>
  The coin precision of the Sia code base from which the package descends: \<open>10\<^sup>2\<^sup>4\<close>
  base units per coin. Concrete inputs are evaluated at this precision.
\<close>

definition precision24 :: Currency where
  "precision24 = 10 ^ 24"

text \<open>A host that asks the storage price \<open>p\<close> and nothing else.\<close>

definition priced :: "nat \<Rightarrow> HostDBEntry" where
  "priced p =
    \<lparr>Collateral = 0, MaxCollateral = 0, ContractPrice = 0, StoragePrice = p,
     UploadBandwidthPrice = 0, DownloadBandwidthPrice = 0, RemainingStorage = 0,
     Version = ''1.3.2'', FirstSeen = 0, HistoricDowntime = 0, HistoricUptime = 0,
     HistoricSuccessfulInteractions = 0, HistoricFailedInteractions = 0, ScanHistory = []\<rparr>"

text \<open>A host scanned three times, 100 ns apart, each time with success.\<close>

definition steadyHost :: HostDBEntry where
  "steadyHost =
    \<lparr>Collateral = 0, MaxCollateral = 0, ContractPrice = 0, StoragePrice = 0,
     UploadBandwidthPrice = 0, DownloadBandwidthPrice = 0, RemainingStorage = 0,
     Version = ''1.3.2'', FirstSeen = 0, HistoricDowntime = 0, HistoricUptime = 0,
     HistoricSuccessfulInteractions = 0, HistoricFailedInteractions = 0,
     ScanHistory = [\<lparr>Timestamp = 0, Success = True\<rparr>, \<lparr>Timestamp = 100, Success = True\<rparr>,
                    \<lparr>Timestamp = 200, Success = True\<rparr>]\<rparr>"


definition cheapHost :: HostDBEntry where
  "cheapHost =
    \<lparr>Collateral = 1, MaxCollateral = 1000000000000, ContractPrice = 0, StoragePrice = 0,
     UploadBandwidthPrice = 0, DownloadBandwidthPrice = 0, RemainingStorage = 0,
     Version = ''1.3.0'', FirstSeen = 0, HistoricDowntime = 0, HistoricUptime = 0,
     HistoricSuccessfulInteractions = 0, HistoricFailedInteractions = 0, ScanHistory = []\<rparr>"

definition onePeriod :: Allowance where
  "onePeriod = \<lparr>Funds = 0, Hosts = 1, Period = 1\<rparr>"

definition degenerate :: Allowance where
  "degenerate = \<lparr>Funds = 0, Hosts = 0, Period = 0\<rparr>"

text \<open>
  A host with no history whose collateral, price and storage factors are all 1 at
  precision \<open>10\<^sup>2\<^sup>4\<close> under the allowance \<open>onePeriod\<close>.
\<close>

definition fairHost :: HostDBEntry where
  "fairHost =
    \<lparr>Collateral = 2480, MaxCollateral = 0, ContractPrice = 0, StoragePrice = 0,
     UploadBandwidthPrice = 0, DownloadBandwidthPrice = 0, RemainingStorage = 4000000000000,
     Version = ''1.3.2'', FirstSeen = 0, HistoricDowntime = 0, HistoricUptime = 0,
     HistoricSuccessfulInteractions = 0, HistoricFailedInteractions = 0, ScanHistory = []\<rparr>"

text \<open>A host database with no active host.\<close>

definition quietDB :: HostDB where
  "quietDB = \<lparr>blockHeight = 0, weightFunc = (\<lambda>entry. Some 1), ActiveHosts = []\<rparr>"

text \<open>An allowance with funds and hosts but a period of 0 blocks.\<close>

definition zeroPeriod :: Allowance where
  "zeroPeriod = \<lparr>Funds = 500000000000000000000000000, Hosts = 50, Period = 0\<rparr>"

definition endingNow :: Contract where
  "endingNow =
    \<lparr>ContractID = 7, ContractStartHeight = 0, ContractEndHeight = 10, TxnFee = 0,
     ContractFee = 0, UtilityGoodForUpload = False, UtilityGoodForRenew = False\<rparr>"

section \<open>Auxiliary lemmas\<close>

subsection \<open>Facts about \<open>float64\<close>\<close>

lemma mathPow_nonneg:
  assumes "0 \<le> a" "0 < y"
  shows "\<exists>r. mathPow (Finite a) (Finite y) = Finite r \<and> 0 \<le> r"
  using assms by auto

lemma mathPow_uint64_nonneg:
  assumes "0 < y"
  shows "\<exists>r. mathPow (f_of_uint64 k) (Finite y) = Finite r \<and> 0 \<le> r"
  unfolding f_of_uint64_def by (rule mathPow_nonneg) (rule of_nat_0_le_iff, rule assms)

lemma f_div_nat:
  "0 < n \<Longrightarrow> f_div (Finite (real m)) (Finite (real n)) = Finite (real m / real n)"
  by simp

lemma mathPow_ratio_nonneg:
  assumes "0 < y" "k \<noteq> 0"
  shows "\<exists>r. mathPow (f_div (f_of_uint64 c) (f_of_uint64 k)) (Finite y) = Finite r \<and> 0 \<le> r"
proof -
  have "0 < unat k" using assms(2) by (simp add: unat_gt_0)
  then have "f_div (f_of_uint64 c) (f_of_uint64 k) = Finite (real (unat c) / real (unat k))"
    unfolding f_of_uint64_def by (rule f_div_nat)
  moreover have "0 \<le> real (unat c) / real (unat k)"
    by (intro divide_nonneg_nonneg of_nat_0_le_iff)
  ultimately show ?thesis using mathPow_nonneg[OF _ assms(1)] by metis
qed

lemma f_div_int:
  "f_div (Finite (real_of_int a)) (Finite (real_of_int b)) =
     (if b = 0 then (if a = 0 then NaN else signedInf (0 < a))
      else Finite (real_of_int a / real_of_int b))"
  by simp

lemma finite_nonneg_iff: "finite_nonneg x \<longleftrightarrow> (\<exists>r. x = Finite r \<and> 0 \<le> r)"
  by (cases x) (simp_all add: finite_nonneg_def)

subsection \<open>The constants at precision \<open>10\<^sup>2\<^sup>4\<close>\<close>

lemma minTotalPrice_24: "minTotalPrice precision24 = 248015873"
  by (simp add: minTotalPrice_def tbMonth_def Mul64_def precision24_def)

lemma priceDivNormalization_24: "priceDivNormalization precision24 = 2480"
  by (simp add: priceDivNormalization_def tbMonth_def precision24_def)

lemma norm_le_min: "priceDivNormalization prec \<le> minTotalPrice prec"
  by (simp add: priceDivNormalization_def minTotalPrice_def Mul64_def div_le_mono)

subsection \<open>Collateral\<close>

lemma guards_nonzero:
  "collateralGuards allowance es = (a, e) \<Longrightarrow> Hosts a \<noteq> 0 \<and> Period a \<noteq> 0 \<and> e \<noteq> 0"
  by (auto simp: collateralGuards_def Let_def split: if_splits)

lemma guards_idem:
  "collateralGuards
     (allowance\<lparr>Hosts := if Hosts allowance = 0 then 1 else Hosts allowance,
                Period := if Period allowance = 0 then 1 else Period allowance\<rparr>)
     (if es = 0 then 1 else es)
   = collateralGuards allowance es"
  by (simp add: collateralGuards_def Let_def)

lemma hostCollateralOf_Some:
  "Period a \<noteq> 0 \<Longrightarrow> e \<noteq> 0 \<Longrightarrow> \<exists>c. hostCollateralOf entry a e = Some c"
  by (simp add: hostCollateralOf_def Div64_def Let_def)

lemma collateralAdjustments_finite:
  assumes "0 < priceDivNormalization prec"
  shows "\<exists>w. collateralAdjustments prec entry allowance es = Some (Finite w) \<and> 0 \<le> w"
proof -
  obtain a e where g: "collateralGuards allowance es = (a, e)"
    by (cases "collateralGuards allowance es")
  then have nz: "Hosts a \<noteq> 0" "Period a \<noteq> 0" "e \<noteq> 0"
    using guards_nonzero by blast+
  obtain c where c: "hostCollateralOf entry a e = Some c"
    using hostCollateralOf_Some nz by blast
  define cutoff0 where "cutoff0 = Funds a div unat (Hosts a) div unat (Period a) div unat e div 3"
  define cutoff where "cutoff = (if cutoff0 < c then c else cutoff0)"
  define c64 where "c64 = fst (Uint64 (c div priceDivNormalization prec))"
  define k0 where "k0 = fst (Uint64 (cutoff div priceDivNormalization prec))"
  define k where "k = (if k0 = 0 then 1 else k0)"
  have eq: "collateralAdjustments prec entry allowance es =
     Some (f_mul (mathPow (f_of_uint64 k) collateralExponentiationSmall)
         (mathPow (f_div (f_of_uint64 c64) (f_of_uint64 k)) collateralExponentiationLarge))"
    using assms nz
    by (simp add: collateralAdjustments_def g c Div64_def Div_def Let_def
          cutoff0_def cutoff_def c64_def k0_def k_def)
  have small: "collateralExponentiationSmall = Finite (11 / 2)"
    by (simp add: collateralExponentiationSmall_def priceExponentiation_def)
  have large: "collateralExponentiationLarge = Finite (13 / 20)"
    by (simp add: collateralExponentiationLarge_def)
  have kz: "k \<noteq> 0" by (simp add: k_def)
  obtain r1 where r1: "mathPow (f_of_uint64 k) collateralExponentiationSmall = Finite r1" "0 \<le> r1"
    using mathPow_uint64_nonneg[of "11 / 2" k] unfolding small by auto
  obtain r2 where r2:
    "mathPow (f_div (f_of_uint64 c64) (f_of_uint64 k)) collateralExponentiationLarge = Finite r2" "0 \<le> r2"
    using mathPow_ratio_nonneg[of "13 / 20" k c64] kz unfolding large by auto
  show ?thesis using eq r1 r2 by simp
qed

subsection \<open>Price\<close>

lemma uint64_saturate:
  "unat (if snd (Uint64 n) then MaxUint64 else fst (Uint64 n)) = saturate64 n"
  by (auto simp: Uint64_def MaxUint64_def saturate64_def unat_of_nat min_def)

lemma base_pos:
  assumes "0 < priceDivNormalization prec"
  shows "0 < saturate64 (minTotalPrice prec div priceDivNormalization prec)"
proof -
  have "0 < minTotalPrice prec div priceDivNormalization prec"
    using assms norm_le_min[of prec] by (simp add: div_greater_zero_iff)
  then show ?thesis by (simp add: saturate64_def)
qed

lemma actual_pos:
  assumes "0 < priceDivNormalization prec"
  shows "0 < saturate64 (max t (minTotalPrice prec) div priceDivNormalization prec)"
proof -
  have "priceDivNormalization prec \<le> max t (minTotalPrice prec)"
    using norm_le_min[of prec] by simp
  then have "0 < max t (minTotalPrice prec) div priceDivNormalization prec"
    using assms by (simp add: div_greater_zero_iff)
  then show ?thesis by (simp add: saturate64_def)
qed

lemma priceAdjustments_eq:
  assumes "Period allowance \<noteq> 0" "es \<noteq> 0" "uf \<noteq> 0" "df \<noteq> 0" "0 < priceDivNormalization prec"
  shows "priceAdjustments prec entry allowance es uf df
         = Some (Finite (normalisedPriceFactor prec entry allowance es uf df))"
proof -
  define t where "t = totalPrice entry allowance es uf df"
  define bn where "bn = minTotalPrice prec div priceDivNormalization prec"
  define an where "an = max t (minTotalPrice prec) div priceDivNormalization prec"
  have t: "StoragePrice entry + ContractPrice entry div unat (Period allowance) div unat es
        + UploadBandwidthPrice entry div unat uf + DownloadBandwidthPrice entry div unat df div 3 = t"
    by (simp add: t_def totalPrice_def div_mult2_eq)
  have clamp: "(if t < minTotalPrice prec then minTotalPrice prec else t) = max t (minTotalPrice prec)"
    by (simp add: max_def)
  have eq: "priceAdjustments prec entry allowance es uf df =
     Some (mathPow (f_div (f_of_uint64 (if snd (Uint64 bn) then MaxUint64 else fst (Uint64 bn)))
                          (f_of_uint64 (if snd (Uint64 an) then MaxUint64 else fst (Uint64 an))))
            priceExponentiation)"
    using assms
    by (simp add: priceAdjustments_def Div64_def Div_def Let_def t clamp bn_def an_def)
  have b: "0 < saturate64 bn" unfolding bn_def using assms(5) by (rule base_pos)
  have a: "0 < saturate64 an" unfolding an_def using assms(5) by (rule actual_pos)
  have d: "f_div (Finite (real (saturate64 bn))) (Finite (real (saturate64 an)))
           = Finite (real (saturate64 bn) / real (saturate64 an))"
    using a by (rule f_div_nat)
  have r: "0 < real (saturate64 bn) / real (saturate64 an)"
    using a b by simp
  have p: "mathPow (Finite (real (saturate64 bn) / real (saturate64 an))) (Finite 5)
           = Finite ((real (saturate64 bn) / real (saturate64 an)) ^ 5)"
    using r by simp
  show ?thesis
    unfolding eq f_of_uint64_def uint64_saturate d priceExponentiation_def p
    by (simp add: normalisedPriceFactor_def bn_def an_def t_def)
qed

lemma priceAdjustments_zero_period:
  "Period allowance = 0 \<Longrightarrow> priceAdjustments prec entry allowance es uf df = None"
  by (simp add: priceAdjustments_def Div64_def)

lemma normalisedPriceFactor_at_minimum:
  assumes "totalPrice entry allowance es uf df = minTotalPrice precision24"
  shows "normalisedPriceFactor precision24 entry allowance es uf df = 1"
  by (simp add: normalisedPriceFactor_def assms minTotalPrice_24 priceDivNormalization_24 saturate64_def)

lemma normalisedPriceFactor_at_double:
  assumes "totalPrice entry allowance es uf df = 2 * minTotalPrice precision24"
  shows "normalisedPriceFactor precision24 entry allowance es uf df = 1 / 32"
  by (simp add: normalisedPriceFactor_def assms minTotalPrice_24 priceDivNormalization_24
        saturate64_def power_one_over)

subsection \<open>Uptime\<close>

lemma pow_tail:
  assumes "v \<le> 1"
  shows "finite_nonneg (mathPow (Finite v)
           (f_mul (Finite 200) (mathMin (f_sub (Finite 1) (Finite v)) (Finite 0.30))))"
proof -
  have e: "f_mul (Finite 200) (mathMin (f_sub (Finite 1) (Finite v)) (Finite 0.30))
           = Finite (200 * min (1 - v) (3 / 10))"
    by (simp add: f_sub_def)
  consider "v < 0" | "v = 0" | "0 < v" by linarith
  then show ?thesis
  proof cases
    case 1
    then have m: "200 * min (1 - v) (3 / 10) = 60" by (simp add: min_def)
    have i: "is_integer 60" by (simp add: is_integer_def)
    have f: "\<lfloor>60::real\<rfloor> = 60" by simp
    have "mathPow (Finite v) (Finite 60) = Finite (v powi 60)"
      using 1 i by (simp add: f)
    moreover have "0 \<le> v powi 60" by (simp add: power_int_def)
    ultimately show ?thesis unfolding e m by (simp add: finite_nonneg_def)
  next
    case 2
    then show ?thesis unfolding e by (simp add: min_def finite_nonneg_def)
  next
    case 3
    then show ?thesis unfolding e by (simp add: finite_nonneg_def)
  qed
qed

lemma uptime_tail:
  assumes "x0 \<noteq> NaN"
  shows "finite_nonneg
          (let uptimeRatio = x0;
               uptimeRatio = (if f_less (Finite 0.98) uptimeRatio then Finite 0.98 else uptimeRatio);
               uptimeRatio = f_add uptimeRatio (Finite 0.02);
               allowedDowntime = f_mul (Finite 0.03) (f_of_len n);
               uptimeRatio = (if f_less uptimeRatio (f_sub (Finite 1) allowedDowntime)
                              then f_sub (Finite 1) allowedDowntime else uptimeRatio);
               exp = f_mul (Finite 200) (mathMin (f_sub (Finite 1) uptimeRatio) (Finite 0.30))
           in mathPow uptimeRatio exp)"
proof -
  define fl where "fl = 1 - 0.03 * real n"
  have fl: "f_sub (Finite 1) (f_mul (Finite 0.03) (f_of_len n)) = Finite fl"
    by (simp add: f_sub_def f_of_len_def fl_def)
  have fl1: "fl \<le> 1" by (simp add: fl_def)
  define x2 where "x2 = f_add (if f_less (Finite 0.98) x0 then Finite 0.98 else x0) (Finite 0.02)"
  have x2: "x2 = NegInf \<or> (\<exists>v. x2 = Finite v \<and> v \<le> 1)"
    using assms by (cases x0) (auto simp: x2_def)
  define x3 where "x3 = (if f_less x2 (Finite fl) then Finite fl else x2)"
  have "\<exists>v. x3 = Finite v \<and> v \<le> 1"
    using x2 fl1 by (auto simp: x3_def)
  then obtain v where v: "x3 = Finite v" "v \<le> 1" by blast
  have "(let uptimeRatio = x0;
             uptimeRatio = (if f_less (Finite 0.98) uptimeRatio then Finite 0.98 else uptimeRatio);
             uptimeRatio = f_add uptimeRatio (Finite 0.02);
             allowedDowntime = f_mul (Finite 0.03) (f_of_len n);
             uptimeRatio = (if f_less uptimeRatio (f_sub (Finite 1) allowedDowntime)
                            then f_sub (Finite 1) allowedDowntime else uptimeRatio);
             exp = f_mul (Finite 200) (mathMin (f_sub (Finite 1) uptimeRatio) (Finite 0.30))
         in mathPow uptimeRatio exp)
        = mathPow x3 (f_mul (Finite 200) (mathMin (f_sub (Finite 1) x3) (Finite 0.30)))"
    unfolding Let_def fl x3_def x2_def ..
  then show ?thesis using pow_tail[OF v(2)] unfolding v(1) by simp
qed

lemma ratio_not_NaN:
  assumes "\<not> (uptime = 0 \<and> downtime = 0)"
  shows "f_div (f_of_int64 uptime) (f_of_int64 (uptime + downtime)) \<noteq> NaN"
proof -
  have "\<not> (sint uptime = 0 \<and> sint (uptime + downtime) = 0)"
    using assms unfolding signed_eq_0_iff by auto
  then show ?thesis unfolding f_of_int64_def f_div_int by (auto simp: signedInf_def)
qed

lemma uptimeAdjustments_long:
  assumes "3 \<le> length (ScanHistory entry)"
    and "measuredTimes entry = (uptime, downtime)"
    and "\<not> (uptime = 0 \<and> downtime = 0)"
  shows "uptimeAdjustments entry =
       (let uptimeRatio = f_div (f_of_int64 uptime) (f_of_int64 (uptime + downtime));
            uptimeRatio = (if f_less (Finite 0.98) uptimeRatio then Finite 0.98 else uptimeRatio);
            uptimeRatio = f_add uptimeRatio (Finite 0.02);
            allowedDowntime = f_mul (Finite 0.03) (f_of_len (length (ScanHistory entry)));
            uptimeRatio = (if f_less uptimeRatio (f_sub (Finite 1) allowedDowntime)
                           then f_sub (Finite 1) allowedDowntime else uptimeRatio);
            exp = f_mul (Finite 200) (mathMin (f_sub (Finite 1) uptimeRatio) (Finite 0.30))
        in mathPow uptimeRatio exp)"
proof -
  have len: "length (ScanHistory entry) \<noteq> 0" "length (ScanHistory entry) \<noteq> 1"
    "length (ScanHistory entry) \<noteq> 2"
    using assms(1) by auto
  show ?thesis
    by (simp only: uptimeAdjustments_def assms(2) Let_def prod.case len assms(3) if_False)
qed

lemma uptimeAdjustments_finite:
  "finite_nonneg (uptimeAdjustments entry)"
proof -
  obtain uptime downtime where m: "measuredTimes entry = (uptime, downtime)"
    by (cases "measuredTimes entry")
  consider (a) "length (ScanHistory entry) = 0" | (b) "length (ScanHistory entry) = 1"
    | (c) "length (ScanHistory entry) = 2"
    | (d) "3 \<le> length (ScanHistory entry)" "uptime = 0 \<and> downtime = 0"
    | (e) "3 \<le> length (ScanHistory entry)" "\<not> (uptime = 0 \<and> downtime = 0)"
    by linarith
  then show ?thesis
  proof cases
    case a
    then show ?thesis by (simp add: uptimeAdjustments_def finite_nonneg_def)
  next
    case b
    then show ?thesis by (simp add: uptimeAdjustments_def finite_nonneg_def)
  next
    case c
    then show ?thesis by (simp add: uptimeAdjustments_def finite_nonneg_def)
  next
    case d
    have len: "length (ScanHistory entry) \<noteq> 0" "length (ScanHistory entry) \<noteq> 1"
      "length (ScanHistory entry) \<noteq> 2"
      using d(1) by auto
    have m0: "measuredTimes entry = (0, 0)"
      using m d(2) by simp
    have "uptimeAdjustments entry = Finite 0.001"
      by (simp only: uptimeAdjustments_def m0 Let_def prod.case len if_False if_True simp_thms)
    then show ?thesis by (simp add: finite_nonneg_def)
  next
    case e
    show ?thesis
      unfolding uptimeAdjustments_long[OF e(1) m e(2)]
      by (rule uptime_tail[OF ratio_not_NaN[OF e(2)]])
  qed
qed

subsection \<open>The weight as a function of the factors\<close>

lemma interactionAdjustments_finite:
  "\<exists>iv. interactionAdjustments entry = Finite iv \<and> 0 \<le> iv"
proof -
  define hsi where "hsi = HistoricSuccessfulInteractions entry + 30"
  define hfi where "hfi = HistoricFailedInteractions entry + 1"
  have pos: "0 < hsi + hfi" by (simp add: hfi_def)
  have d: "f_div (Finite (real hsi)) (Finite (real (hsi + hfi))) = Finite (real hsi / real (hsi + hfi))"
    using pos by (rule f_div_nat)
  have "0 \<le> real hsi / real (hsi + hfi)" by simp
  from mathPow_nonneg[OF this, of 15]
  show ?thesis
    unfolding interactionAdjustments_def Let_def hsi_def[symmetric] hfi_def[symmetric] d by simp
qed

lemma lifetimeAdjustments_finite:
  "\<exists>lv. lifetimeAdjustments hdb entry = Finite lv \<and> 0 \<le> lv"
  by (simp add: lifetimeAdjustments_def Let_def)

lemma storageRemainingAdjustments_finite:
  "\<exists>sv. storageRemainingAdjustments b entry = Finite sv \<and> 0 \<le> sv"
  by (simp add: storageRemainingAdjustments_def Let_def)

lemma weight_of_factors:
  assumes "collateralAdjustments prec entry allowance expectedStorage = Some (Finite cv)"
    and "interactionAdjustments entry = Finite iv"
    and "lifetimeAdjustments hdb entry = Finite lv"
    and "priceAdjustments prec entry allowance expectedStorage expectedUploadFrequency
           expectedDownloadFrequency = Some (Finite pv)"
    and "storageRemainingAdjustments b entry = Finite sv"
    and "uptimeAdjustments entry = Finite uv"
    and "0 \<le> cv * iv * lv * pv * sv * uv"
  shows "calculateHostWeightFn prec b hdb allowance entry = Some (clampWeight (cv * iv * lv * pv * sv * uv))"
  using assms(7)
  by (simp add: calculateHostWeightFn_def assms(1-6) versionAdjustments_def clampWeight_def Let_def)

lemma clampWeight_ge_1: "1 \<le> clampWeight y"
proof -
  define n where "n = nat \<lfloor>real baseWeight * y\<rfloor>"
  have "clampWeight y = (if n = 0 then 1 else n)"
    unfolding clampWeight_def n_def ..
  then show ?thesis by simp
qed

lemma clampWeight_mono:
  assumes "x \<le> y"
  shows "clampWeight x \<le> clampWeight y"
proof -
  define m where "m = nat \<lfloor>real baseWeight * x\<rfloor>"
  define n where "n = nat \<lfloor>real baseWeight * y\<rfloor>"
  have "real baseWeight * x \<le> real baseWeight * y"
    using assms by (simp add: mult_left_mono)
  then have "m \<le> n"
    unfolding m_def n_def by (intro nat_mono floor_mono)
  moreover have "clampWeight x = (if m = 0 then 1 else m)"
    unfolding clampWeight_def m_def ..
  moreover have "clampWeight y = (if n = 0 then 1 else n)"
    unfolding clampWeight_def n_def ..
  ultimately show ?thesis by simp
qed

lemma hostCollateralOf_independent:
  "hostCollateralOf (entry\<lparr>RemainingStorage := r\<rparr>) allowance es = hostCollateralOf entry allowance es"
  by (simp add: hostCollateralOf_def cong: if_cong)

lemma collateral_independent:
  "collateralAdjustments prec (entry\<lparr>RemainingStorage := r\<rparr>) allowance es
   = collateralAdjustments prec entry allowance es"
  unfolding collateralAdjustments_def hostCollateralOf_independent ..

lemma price_independent:
  "priceAdjustments prec (entry\<lparr>RemainingStorage := r\<rparr>) allowance es uf df
   = priceAdjustments prec entry allowance es uf df"
  by (simp add: priceAdjustments_def)

lemma measuredTimes_independent:
  "measuredTimes (entry\<lparr>RemainingStorage := r\<rparr>) = measuredTimes entry"
  by (simp add: measuredTimes_def)

lemma others_independent:
  "interactionAdjustments (entry\<lparr>RemainingStorage := r\<rparr>) = interactionAdjustments entry"
  "lifetimeAdjustments hdb (entry\<lparr>RemainingStorage := r\<rparr>) = lifetimeAdjustments hdb entry"
  "uptimeAdjustments (entry\<lparr>RemainingStorage := r\<rparr>) = uptimeAdjustments entry"
proof -
  show "interactionAdjustments (entry\<lparr>RemainingStorage := r\<rparr>) = interactionAdjustments entry"
    by (simp add: interactionAdjustments_def)
  show "lifetimeAdjustments hdb (entry\<lparr>RemainingStorage := r\<rparr>) = lifetimeAdjustments hdb entry"
    by (simp add: lifetimeAdjustments_def)
  show "uptimeAdjustments (entry\<lparr>RemainingStorage := r\<rparr>) = uptimeAdjustments entry"
    by (cases "measuredTimes entry")
      (simp add: uptimeAdjustments_def measuredTimes_independent Let_def)
qed

lemma count_mono:
  assumes "\<And>x. P x \<Longrightarrow> Q x"
  shows "length (filter P xs) \<le> length (filter Q xs)"
  using assms by (induction xs) auto

lemma storage_mono:
  assumes "r1 \<le> r2"
  shows "\<exists>s1 s2. storageRemainingAdjustments b (entry\<lparr>RemainingStorage := r1\<rparr>) = Finite s1
            \<and> storageRemainingAdjustments b (entry\<lparr>RemainingStorage := r2\<rparr>) = Finite s2
            \<and> 0 \<le> s1 \<and> s1 \<le> s2"
proof -
  define n1 where "n1 = length (filter (\<lambda>t. r1 < t * requiredStorage b) storageThresholds)"
  define n2 where "n2 = length (filter (\<lambda>t. r2 < t * requiredStorage b) storageThresholds)"
  have "n2 \<le> n1"
    unfolding n1_def n2_def using assms by (intro count_mono) auto
  then have "(1 / 2 :: real) ^ n1 \<le> (1 / 2) ^ n2"
    by (intro power_decreasing) auto
  moreover have "storageRemainingAdjustments b (entry\<lparr>RemainingStorage := r1\<rparr>) = Finite ((1 / 2) ^ n1)"
    by (simp add: storageRemainingAdjustments_def storageThresholds_def Let_def n1_def)
  moreover have "storageRemainingAdjustments b (entry\<lparr>RemainingStorage := r2\<rparr>) = Finite ((1 / 2) ^ n2)"
    by (simp add: storageRemainingAdjustments_def storageThresholds_def Let_def n2_def)
  ultimately show ?thesis by auto
qed

lemma collateral_no_norm:
  assumes "priceDivNormalization prec = 0"
  shows "collateralAdjustments prec entry allowance es = None"
proof -
  obtain a e where g: "collateralGuards allowance es = (a, e)"
    by (cases "collateralGuards allowance es")
  then have nz: "Hosts a \<noteq> 0" "Period a \<noteq> 0" "e \<noteq> 0"
    using guards_nonzero by blast+
  obtain c where c: "hostCollateralOf entry a e = Some c"
    using hostCollateralOf_Some nz by blast
  show ?thesis
    using assms nz by (simp add: collateralAdjustments_def g c Div64_def Div_def Let_def)
qed

lemma expected_nonzero:
  "expectedStorage \<noteq> 0" "expectedUploadFrequency \<noteq> 0" "expectedDownloadFrequency \<noteq> 0"
  by (simp_all add: expectedStorage_def expectedUploadFrequency_def expectedDownloadFrequency_def)

lemma normalisedPriceFactor_nonneg: "0 \<le> normalisedPriceFactor prec entry allowance es uf df"
  by (simp add: normalisedPriceFactor_def)

lemma weight_none:
  assumes "Period allowance = 0 \<or> priceDivNormalization prec = 0"
  shows "calculateHostWeightFn prec b hdb allowance entry = None"
proof (cases "priceDivNormalization prec = 0")
  case True
  then show ?thesis by (simp add: calculateHostWeightFn_def collateral_no_norm)
next
  case False
  then have "Period allowance = 0" using assms by simp
  then have "priceAdjustments prec entry allowance expectedStorage expectedUploadFrequency
           expectedDownloadFrequency = None"
    by (rule priceAdjustments_zero_period)
  then show ?thesis
    by (cases "collateralAdjustments prec entry allowance expectedStorage")
      (simp_all add: calculateHostWeightFn_def)
qed

lemma weight_some:
  assumes "Period allowance \<noteq> 0" "0 < priceDivNormalization prec"
  shows "\<exists>cv iv lv pv sv uv.
      collateralAdjustments prec entry allowance expectedStorage = Some (Finite cv)
    \<and> interactionAdjustments entry = Finite iv
    \<and> lifetimeAdjustments hdb entry = Finite lv
    \<and> priceAdjustments prec entry allowance expectedStorage expectedUploadFrequency
           expectedDownloadFrequency = Some (Finite pv)
    \<and> storageRemainingAdjustments b entry = Finite sv
    \<and> uptimeAdjustments entry = Finite uv
    \<and> 0 \<le> cv \<and> 0 \<le> iv \<and> 0 \<le> lv \<and> 0 \<le> pv \<and> 0 \<le> sv \<and> 0 \<le> uv"
proof -
  obtain cv where c: "collateralAdjustments prec entry allowance expectedStorage = Some (Finite cv)" "0 \<le> cv"
    using collateralAdjustments_finite[OF assms(2)] by blast
  obtain iv where i: "interactionAdjustments entry = Finite iv" "0 \<le> iv"
    using interactionAdjustments_finite by blast
  obtain lv where l: "lifetimeAdjustments hdb entry = Finite lv" "0 \<le> lv"
    using lifetimeAdjustments_finite by blast
  obtain sv where s: "storageRemainingAdjustments b entry = Finite sv" "0 \<le> sv"
    using storageRemainingAdjustments_finite by blast
  obtain uv where u: "uptimeAdjustments entry = Finite uv" "0 \<le> uv"
    using uptimeAdjustments_finite[of entry] unfolding finite_nonneg_iff by blast
  have p: "priceAdjustments prec entry allowance expectedStorage expectedUploadFrequency
           expectedDownloadFrequency = Some (Finite (normalisedPriceFactor prec entry allowance expectedStorage expectedUploadFrequency
           expectedDownloadFrequency))"
    using assms(1) expected_nonzero assms(2) by (rule priceAdjustments_eq)
  show ?thesis using c i l s u p normalisedPriceFactor_nonneg by blast
qed

text \<open>
  For an allowance whose period is not 0 the weight function returns, and what it returns
  is at least 1: a product of the factors that truncates to 0 is replaced by 1.
\<close>

lemma weight_at_least_1:
  assumes "Period allowance \<noteq> 0" "0 < priceDivNormalization prec"
  shows "\<exists>w. calculateHostWeightFn prec b hdb allowance entry = Some w \<and> 1 \<le> w"
proof -
  obtain cv iv lv pv sv uv where f:
    "collateralAdjustments prec entry allowance expectedStorage = Some (Finite cv)"
    "interactionAdjustments entry = Finite iv"
    "lifetimeAdjustments hdb entry = Finite lv"
    "priceAdjustments prec entry allowance expectedStorage expectedUploadFrequency
           expectedDownloadFrequency = Some (Finite pv)"
    "storageRemainingAdjustments b entry = Finite sv"
    "uptimeAdjustments entry = Finite uv"
    and nn: "0 \<le> cv" "0 \<le> iv" "0 \<le> lv" "0 \<le> pv" "0 \<le> sv" "0 \<le> uv"
    using weight_some[OF assms] by blast
  have "0 \<le> cv * iv * lv * pv * sv * uv" using nn by simp
  from weight_of_factors[OF f this] clampWeight_ge_1 show ?thesis by blast
qed

subsection \<open>The estimated score at a host without history\<close>

lemma fair_collateral:
  "collateralAdjustments precision24 fairHost onePeriod expectedStorage = Some (Finite 1)"
  by (simp add: collateralAdjustments_def collateralGuards_def hostCollateralOf_def fairHost_def
        onePeriod_def expectedStorage_def priceDivNormalization_24 Mul64_def Div64_def Div_def
        Uint64_def MaxUint64_def f_of_uint64_def collateralExponentiationSmall_def
        collateralExponentiationLarge_def priceExponentiation_def Let_def)

lemma fair_price:
  "priceAdjustments precision24 fairHost onePeriod expectedStorage expectedUploadFrequency
     expectedDownloadFrequency = Some (Finite 1)"
  by (simp add: priceAdjustments_def minTotalPrice_24 priceDivNormalization_24 fairHost_def
        onePeriod_def expectedStorage_def expectedUploadFrequency_def expectedDownloadFrequency_def
        Div64_def Div_def Uint64_def MaxUint64_def f_of_uint64_def priceExponentiation_def Let_def)

lemma fair_storage: "storageRemainingAdjustments Standard fairHost = Finite 1"
  by (simp add: storageRemainingAdjustments_def requiredStorage_def fairHost_def Let_def)

lemma fair_interaction: "interactionAdjustments fairHost = Finite ((30 / 31) ^ 15)"
  by (simp add: interactionAdjustments_def fairHost_def Let_def)

lemma baseWeight_pos: "0 < baseWeight"
  by (simp add: baseWeight_def)

lemma quiet_rate: "calculateConversionRate quietDB baseWeight = Some (Finite 100)"
  by (simp add: calculateConversionRate_def quietDB_def Mul64_def baseWeight_def Let_def)

lemma fair_estimate:
  "map_option Score (EstimateHostScore precision24 Standard quietDB fairHost onePeriod)
   = Some baseWeight"
  using baseWeight_pos
  by (simp add: EstimateHostScore_def fair_collateral fair_price fair_storage versionAdjustments_def
        quiet_rate Let_def)

lemma fair_spec:
  "spec_estimatedScore precision24 Standard quietDB fairHost onePeriod
   = Some (clampWeight ((30 / 31) ^ 15))"
  by (simp add: spec_estimatedScore_def fair_collateral fair_price fair_storage fair_interaction
       versionAdjustments_def clampWeight_def Let_def)

lemma clampWeight_below:
  assumes "y < 1"
  shows "clampWeight y < baseWeight"
proof -
  define n where "n = nat \<lfloor>real baseWeight * y\<rfloor>"
  have "real baseWeight * y < real baseWeight"
    using assms by (simp add: baseWeight_def)
  then have "\<lfloor>real baseWeight * y\<rfloor> < int baseWeight"
    by (simp add: floor_less_iff)
  then have "n < baseWeight" unfolding n_def using baseWeight_pos by linarith
  moreover have "clampWeight y = (if n = 0 then 1 else n)"
    unfolding clampWeight_def n_def ..
  moreover have "1 < baseWeight" by (simp add: baseWeight_def)
  ultimately show ?thesis by simp
qed

subsection \<open>The two loops of the contracts listing\<close>

lemma currentLoop_fields:
  "ExpiredContracts (currentLoop inactive cs r) = ExpiredContracts r"
  "InactiveContracts (currentLoop inactive cs r) =
     InactiveContracts r @
     (if inactive then map buildContract (filter (\<lambda>c. \<not> UtilityGoodForRenew c) cs) else [])"
  by (induction cs arbitrary: r) (simp_all add: Let_def)

lemma oldLoop_fields:
  "ExpiredContracts (oldLoop inactive expired height cs r) =
     ExpiredContracts r @
     (if expired then map buildContract (filter (\<lambda>c. ContractEndHeight c < height) cs) else [])"
  "InactiveContracts (oldLoop inactive expired height cs r) =
     InactiveContracts r @
     (if inactive then map buildContract (filter (\<lambda>c. height \<le> ContractEndHeight c) cs) else [])"
  by (induction cs arbitrary: r) (auto simp: Let_def)

section \<open>Claims\<close>

subsection \<open>C1: the collateral used for scoring\<close>

text \<open>
  Claim C1 says that the collateral used for scoring is the smaller of the advertised
  collateral and \<open>max_collateral / (2 \<sqdot> period \<sqdot> expected_storage)\<close>. The source compares
  the other way round: it replaces the advertised collateral when the collateral required
  for the period is \<^emph>\<open>below\<close> half the maximum, so the larger of the two values is used.
  For a host that advertises 1 per byte and block with a maximum of \<open>10\<^sup>1\<^sup>2\<close>, a period of
  one block and the expected storage of 25 GB, the source scores with 20 where the claim
  has 1.
\<close>

theorem hostCollateral_exceeds_cap:
  "(case collateralGuards onePeriod expectedStorage of
      (a, es) \<Rightarrow> hostCollateralOf cheapHost a es) = Some 20
   \<and> spec_hostCollateral cheapHost onePeriod expectedStorage = 1"
  by (simp add: collateralGuards_def hostCollateralOf_def cheapHost_def onePeriod_def
        expectedStorage_def spec_hostCollateral_def Mul64_def Div64_def Let_def)

subsection \<open>C2: the weight is at least 1\<close>

text \<open>
  Claim C2 promises a weight of at least 1 for every entry and every allowance. Under an
  allowance with a period of 0 blocks the weight function returns nothing:
  \<open>collateralAdjustments\<close> replaces the period by 1 to avoid a division by zero, but
  \<open>priceAdjustments\<close> divides the contract price by the period as it stands, and the
  division panics. This holds for every entry, build and host database.
\<close>

theorem weight_panics_on_zero_period:
  "calculateHostWeightFn precision24 b hdb zeroPeriod entry = None"
  by (rule weight_none) (simp add: zeroPeriod_def)

subsection \<open>C3: the price adjustment\<close>

text \<open>
  Claim C3 makes the price factor the fifth power of \<open>min_total_price\<close> over the clamped
  total price. The source first divides both amounts by \<open>priceDivNormalization\<close>,
  truncating, so that totals within one normalisation step of each other get the same
  factor. As amended: when the period, the expected storage and the two frequencies are
  not zero, the factor is the fifth power of the normalised minimum over the normalised
  clamped total, the total being computed with truncating divisions; and at the coin
  precision \<open>10\<^sup>2\<^sup>4\<close> a host whose total price is the minimum has factor 1 and a host whose
  total price is twice the minimum has factor 1/32, a ratio of exactly 32.
\<close>

theorem priceAdjustments_normalised:
  assumes "Period allowance \<noteq> 0" "es \<noteq> 0" "uf \<noteq> 0" "df \<noteq> 0" "0 < priceDivNormalization prec"
  shows "priceAdjustments prec entry allowance es uf df
           = Some (Finite (normalisedPriceFactor prec entry allowance es uf df))
    \<and> (prec = precision24
         \<and> totalPrice entryA allowance es uf df = minTotalPrice prec
         \<and> totalPrice entryB allowance es uf df = 2 * minTotalPrice prec
       \<longrightarrow> priceAdjustments prec entryA allowance es uf df = Some (Finite 1)
         \<and> priceAdjustments prec entryB allowance es uf df = Some (Finite (1 / 32)))"
proof (intro conjI impI)
  show "priceAdjustments prec entry allowance es uf df
           = Some (Finite (normalisedPriceFactor prec entry allowance es uf df))"
    using assms by (rule priceAdjustments_eq)
next
  assume h: "prec = precision24
         \<and> totalPrice entryA allowance es uf df = minTotalPrice prec
         \<and> totalPrice entryB allowance es uf df = 2 * minTotalPrice prec"
  show "priceAdjustments prec entryA allowance es uf df = Some (Finite 1)"
    using h priceAdjustments_eq[OF assms, of entryA]
    by (simp add: normalisedPriceFactor_at_minimum)
  show "priceAdjustments prec entryB allowance es uf df = Some (Finite (1 / 32))"
    using h priceAdjustments_eq[OF assms, of entryB]
    by (simp add: normalisedPriceFactor_at_double)
qed

theorem priceAdjustments_normalised_witness:
  "Period onePeriod \<noteq> 0 \<and> expectedStorage \<noteq> 0 \<and> expectedUploadFrequency \<noteq> 0
   \<and> expectedDownloadFrequency \<noteq> 0 \<and> 0 < priceDivNormalization precision24
   \<and> totalPrice (priced 248015873) onePeriod expectedStorage expectedUploadFrequency
        expectedDownloadFrequency = minTotalPrice precision24
   \<and> totalPrice (priced 496031746) onePeriod expectedStorage expectedUploadFrequency
        expectedDownloadFrequency = 2 * minTotalPrice precision24
   \<and> priceAdjustments precision24 (priced 248015873) onePeriod expectedStorage
        expectedUploadFrequency expectedDownloadFrequency = Some (Finite 1)
   \<and> priceAdjustments precision24 (priced 496031746) onePeriod expectedStorage
        expectedUploadFrequency expectedDownloadFrequency = Some (Finite (1 / 32))"
proof -
  have h1: "Period onePeriod \<noteq> 0" by (simp add: onePeriod_def)
  have h2: "expectedStorage \<noteq> 0" by (simp add: expectedStorage_def)
  have h3: "expectedUploadFrequency \<noteq> 0" by (simp add: expectedUploadFrequency_def)
  have h4: "expectedDownloadFrequency \<noteq> 0" by (simp add: expectedDownloadFrequency_def)
  have h5: "0 < priceDivNormalization precision24" by (simp add: priceDivNormalization_24)
  have a: "totalPrice (priced 248015873) onePeriod expectedStorage expectedUploadFrequency
        expectedDownloadFrequency = minTotalPrice precision24"
    by (simp add: totalPrice_def priced_def minTotalPrice_24)
  have b: "totalPrice (priced 496031746) onePeriod expectedStorage expectedUploadFrequency
        expectedDownloadFrequency = 2 * minTotalPrice precision24"
    by (simp add: totalPrice_def priced_def minTotalPrice_24)
  from priceAdjustments_normalised[OF h1 h2 h3 h4 h5, of "priced 0" "priced 248015873" "priced 496031746"]
  show ?thesis using h1 h2 h3 h4 h5 a b by blast
qed

text \<open>
  Against C3 as stated: at precision \<open>10\<^sup>2\<^sup>4\<close> a host whose only price is a storage price
  one unit above the minimum total price has factor 1 in the source, while the spec's
  formula gives a factor below 1.
\<close>

theorem priceAdjustments_above_minimum:
  "priceAdjustments precision24 (priced 248015874) onePeriod expectedStorage
      expectedUploadFrequency expectedDownloadFrequency = Some (Finite 1)
   \<and> spec_priceFactor precision24 (priced 248015874) onePeriod expectedStorage
      expectedUploadFrequency expectedDownloadFrequency < 1"
proof
  show "priceAdjustments precision24 (priced 248015874) onePeriod expectedStorage
      expectedUploadFrequency expectedDownloadFrequency = Some (Finite 1)"
    by (simp add: priceAdjustments_def minTotalPrice_24 priceDivNormalization_24 priced_def
        onePeriod_def expectedStorage_def expectedUploadFrequency_def expectedDownloadFrequency_def
        Div64_def Div_def Uint64_def MaxUint64_def f_of_uint64_def priceExponentiation_def Let_def)
  show "spec_priceFactor precision24 (priced 248015874) onePeriod expectedStorage
      expectedUploadFrequency expectedDownloadFrequency < 1"
    by (simp add: spec_priceFactor_def spec_totalPrice_def minTotalPrice_24 priced_def
        power_less_one_iff)
qed

subsection \<open>C4: the storage-remaining cascade\<close>

text \<open>
  Claim C4. The storage-remaining factor starts at 1 and is halved once for every threshold
  among 200, 150, 100, 80, 40, 20, 15, 10, 5, 3, 2, 1 (times \<open>requiredStorage\<close>) that the
  remaining storage lies strictly below. In every build, an entry with remaining storage
  \<open>150 \<sqdot> requiredStorage - 1\<close> has factor 1/4 and one with
  \<open>150 \<sqdot> requiredStorage + 1\<close> has factor 1/2. Halving is exact in binary
  floating point, so these values are also the ones the machine computes.
\<close>

theorem storageRemaining_cascade:
  "storageRemainingAdjustments b entry =
     Finite ((1 / 2) ^ length (filter (\<lambda>t. RemainingStorage entry < t * requiredStorage b) storageThresholds))
   \<and> storageRemainingAdjustments b (entry\<lparr>RemainingStorage := 150 * requiredStorage b - 1\<rparr>) = Finite (1 / 4)
   \<and> storageRemainingAdjustments b (entry\<lparr>RemainingStorage := 150 * requiredStorage b + 1\<rparr>) = Finite (1 / 2)"
proof (intro conjI)
  show "storageRemainingAdjustments b entry =
     Finite ((1 / 2) ^ length (filter (\<lambda>t. RemainingStorage entry < t * requiredStorage b) storageThresholds))"
    by (simp add: storageRemainingAdjustments_def storageThresholds_def Let_def)
  show "storageRemainingAdjustments b (entry\<lparr>RemainingStorage := 150 * requiredStorage b - 1\<rparr>) = Finite (1 / 4)"
    by (cases b) (simp_all add: storageRemainingAdjustments_def requiredStorage_def Let_def)
  show "storageRemainingAdjustments b (entry\<lparr>RemainingStorage := 150 * requiredStorage b + 1\<rparr>) = Finite (1 / 2)"
    by (cases b) (simp_all add: storageRemainingAdjustments_def requiredStorage_def Let_def)
qed

subsection \<open>C5: the uptime adjustment\<close>

text \<open>
  Claim C5. For an entry with at least three scans, let \<open>uptime\<close> and \<open>downtime\<close> be the
  totals that the loop measures (a scan out of order is skipped, so the history need not
  be sorted). If their sum, as the source computes it, is positive and \<open>uptime\<close> is at
  least 0.98 of it, the uptime adjustment is exactly 1: the ratio is capped at 0.98 and
  raised by 0.02, and the exponent is 0.
\<close>

theorem uptimeAdjustments_high_uptime:
  assumes "3 \<le> length (ScanHistory entry)"
    and "measuredTimes entry = (uptime, downtime)"
    and "0 < sint (uptime + downtime)"
    and "0.98 \<le> real_of_int (sint uptime) / real_of_int (sint (uptime + downtime))"
  shows "uptimeAdjustments entry = Finite 1"
proof -
  have nz: "\<not> (uptime = 0 \<and> downtime = 0)" using assms(3) by auto
  define r where "r = real_of_int (sint uptime) / real_of_int (sint (uptime + downtime))"
  define fl where "fl = 1 - 0.03 * real (length (ScanHistory entry))"
  have d: "f_div (f_of_int64 uptime) (f_of_int64 (uptime + downtime)) = Finite r"
    unfolding f_of_int64_def f_div_int r_def using assms(3) by auto
  have r: "0.98 \<le> r" using assms(4) by (simp only: r_def)
  have s1: "(if f_less (Finite 0.98) (Finite r) then Finite 0.98 else Finite r) = Finite 0.98"
    using r by auto
  have s2: "f_add (Finite 0.98) (Finite 0.02) = Finite 1"
    by simp
  have s3: "f_sub (Finite 1) (f_mul (Finite 0.03) (f_of_len (length (ScanHistory entry)))) = Finite fl"
    by (simp add: f_sub_def f_of_len_def fl_def)
  have s4: "(if f_less (Finite 1) (Finite fl) then Finite fl else Finite 1) = Finite 1"
    by (simp add: fl_def)
  have s5: "f_mul (Finite 200) (mathMin (f_sub (Finite 1) (Finite 1)) (Finite 0.30)) = Finite 0"
    by (simp add: f_sub_def)
  have s6: "mathPow (Finite 1) (Finite 0) = Finite 1"
    by simp
  show ?thesis
    unfolding uptimeAdjustments_long[OF assms(1,2) nz] Let_def d s1 s2 s3 s4 s5 s6 ..
qed

theorem uptimeAdjustments_high_uptime_witness:
  "3 \<le> length (ScanHistory steadyHost)
   \<and> measuredTimes steadyHost = (200, 0)
   \<and> 0 < sint (200 + 0 :: Duration)
   \<and> 0.98 \<le> real_of_int (sint (200 :: Duration)) / real_of_int (sint (200 + 0 :: Duration))
   \<and> uptimeAdjustments steadyHost = Finite 1"
proof -
  have h1: "3 \<le> length (ScanHistory steadyHost)" by (simp add: steadyHost_def)
  have h2: "measuredTimes steadyHost = (200, 0)"
    by (simp add: measuredTimes_def steadyHost_def After_def Sub_def)
  have h3: "0 < sint (200 + 0 :: Duration)" by simp
  have h4: "0.98 \<le> real_of_int (sint (200 :: Duration)) / real_of_int (sint (200 + 0 :: Duration))"
    by simp
  from uptimeAdjustments_high_uptime[OF h1 h2 h3 h4] h1 h2 h3 h4 show ?thesis by blast
qed

subsection \<open>C6: the version adjustment\<close>

text \<open>
  Claim C6 gives hosts below the hard-fork version the smallest positive float and other
  outdated hosts a penalty below 1. The penalties of the source sit inside a comment, and
  a note there says that they wait for versions worth telling apart. As amended: for
  every entry, whatever version it advertises, the version adjustment is 1.
\<close>

theorem versionAdjustments_one:
  "versionAdjustments entry = Finite 1"
  by (simp add: versionAdjustments_def)

text \<open>
  Against C6 as stated: a host that advertises version 1.3.0, below the hard fork at 1.3.1
  that the commented code names, keeps the factor 1.
\<close>

theorem versionAdjustments_old_host:
  "Version cheapHost = ''1.3.0'' \<and> versionAdjustments cheapHost = Finite 1
   \<and> versionAdjustments cheapHost \<noteq> SmallestNonzeroFloat64"
  by (simp add: versionAdjustments_def SmallestNonzeroFloat64_def cheapHost_def)

subsection \<open>C7: the estimated score\<close>

text \<open>
  Claim C7 makes the estimated score the full weight with the age and the uptime factor
  set to 1 and every other factor, the interaction factor among them, as in the weight
  function. \<open>EstimateHostScore\<close> multiplies the collateral, price, storage and version
  factors only. For a host without history whose four factors are 1 it reports the base
  weight \<open>10\<^sup>8\<^sup>0\<close>, while the weight with age and uptime set to 1 still carries the
  interaction factor \<open>(30/31)\<^sup>1\<^sup>5\<close> of a host without interactions and lies below the
  base weight. The breakdown that is returned carries the interaction adjustment 0.
\<close>

theorem estimate_leaves_out_interaction:
  "map_option Score (EstimateHostScore precision24 Standard quietDB fairHost onePeriod)
     = Some baseWeight
   \<and> spec_estimatedScore precision24 Standard quietDB fairHost onePeriod
     = Some (clampWeight ((30 / 31) ^ 15))
   \<and> clampWeight ((30 / 31) ^ 15) < baseWeight
   \<and> map_option InteractionAdjustment
       (EstimateHostScore precision24 Standard quietDB fairHost onePeriod) = Some (Finite 0)"
proof -
  have "(30 / 31 :: real) ^ 15 < 1" by (simp add: power_less_one_iff)
  then have "clampWeight ((30 / 31) ^ 15) < baseWeight" by (rule clampWeight_below)
  moreover have "map_option InteractionAdjustment
       (EstimateHostScore precision24 Standard quietDB fairHost onePeriod) = Some (Finite 0)"
    using baseWeight_pos
    by (simp add: EstimateHostScore_def fair_collateral fair_price fair_storage
          versionAdjustments_def quiet_rate Let_def)
  ultimately show ?thesis using fair_estimate fair_spec by blast
qed

subsection \<open>C8: monotonicity in the remaining storage\<close>

text \<open>
  Claim C8. Let two entries differ only in their remaining storage, \<open>r1 \<le> r2\<close>. Under
  every allowance the weight of the entry with \<open>r2\<close> is at least the weight of the entry
  with \<open>r1\<close>. The weight function returns for both entries or for neither; it fails to
  return exactly when the period of the allowance is 0 or the normalisation constant is
  0, whatever the storage.
\<close>

theorem weight_monotone_in_remaining_storage:
  assumes "r1 \<le> r2"
  shows "rel_option (\<le>)
           (calculateHostWeightFn prec b hdb allowance (entry\<lparr>RemainingStorage := r1\<rparr>))
           (calculateHostWeightFn prec b hdb allowance (entry\<lparr>RemainingStorage := r2\<rparr>))
     \<and> (calculateHostWeightFn prec b hdb allowance (entry\<lparr>RemainingStorage := r1\<rparr>) = None
          \<longleftrightarrow> Period allowance = 0 \<or> priceDivNormalization prec = 0)"
proof (cases "Period allowance = 0 \<or> priceDivNormalization prec = 0")
  case True
  then show ?thesis by (simp add: weight_none)
next
  case False
  then have h: "Period allowance \<noteq> 0" "0 < priceDivNormalization prec" by auto
  obtain cv iv lv pv uv where f:
    "collateralAdjustments prec entry allowance expectedStorage = Some (Finite cv)"
    "interactionAdjustments entry = Finite iv"
    "lifetimeAdjustments hdb entry = Finite lv"
    "priceAdjustments prec entry allowance expectedStorage expectedUploadFrequency
           expectedDownloadFrequency = Some (Finite pv)"
    "uptimeAdjustments entry = Finite uv"
    and nn: "0 \<le> cv" "0 \<le> iv" "0 \<le> lv" "0 \<le> pv" "0 \<le> uv"
    using weight_some[OF h, where entry = entry and hdb = hdb and b = b] by blast
  obtain s1 s2 where s:
    "storageRemainingAdjustments b (entry\<lparr>RemainingStorage := r1\<rparr>) = Finite s1"
    "storageRemainingAdjustments b (entry\<lparr>RemainingStorage := r2\<rparr>) = Finite s2"
    "0 \<le> s1" "s1 \<le> s2"
    using storage_mono[OF assms] by blast
  have k: "0 \<le> cv * iv * lv * pv" using nn by simp
  have n1: "0 \<le> cv * iv * lv * pv * s1 * uv" using k s nn by simp
  have n2: "0 \<le> cv * iv * lv * pv * s2 * uv" using k s nn by simp
  have le: "cv * iv * lv * pv * s1 * uv \<le> cv * iv * lv * pv * s2 * uv"
    using k s(4) nn(5) by (simp add: mult_left_mono mult_right_mono)
  have w1: "calculateHostWeightFn prec b hdb allowance (entry\<lparr>RemainingStorage := r1\<rparr>)
            = Some (clampWeight (cv * iv * lv * pv * s1 * uv))"
    by (rule weight_of_factors) (simp_all add: collateral_independent price_independent others_independent f s n1)
  have w2: "calculateHostWeightFn prec b hdb allowance (entry\<lparr>RemainingStorage := r2\<rparr>)
            = Some (clampWeight (cv * iv * lv * pv * s2 * uv))"
    by (rule weight_of_factors) (simp_all add: collateral_independent price_independent others_independent f s n2)
  show ?thesis using False clampWeight_mono[OF le] by (simp add: w1 w2)
qed

theorem weight_monotone_in_remaining_storage_witness:
  "(0 :: uint64) \<le> 5
   \<and> rel_option (\<le>)
        (calculateHostWeightFn precision24 Standard quietDB onePeriod (fairHost\<lparr>RemainingStorage := 0\<rparr>))
        (calculateHostWeightFn precision24 Standard quietDB onePeriod (fairHost\<lparr>RemainingStorage := 5\<rparr>))
   \<and> (calculateHostWeightFn precision24 Standard quietDB onePeriod (fairHost\<lparr>RemainingStorage := 0\<rparr>) = None
        \<longleftrightarrow> Period onePeriod = 0 \<or> priceDivNormalization precision24 = 0)"
proof -
  have h: "(0 :: uint64) \<le> 5" by simp
  from weight_monotone_in_remaining_storage[OF h, of precision24 Standard quietDB onePeriod fairHost] h
  show ?thesis by blast
qed

subsection \<open>C9: archived contracts in the listing\<close>

text \<open>
  Claim C9 classifies an archived contract as expired when the current height has reached
  its end height, equality included. The source tests \<open>EndHeight < blockHeight\<close> for
  expired and \<open>EndHeight >= blockHeight\<close> for inactive, each under its request flag. As
  amended: when expired contracts are requested, the expired list holds exactly the
  archived contracts whose end height is strictly below the current height; when inactive
  contracts are requested, the inactive list holds the current contracts that are not good
  for renewal followed by the archived contracts whose end height is at or above the
  current height. An archived contract that ends at the current height is therefore
  inactive.
\<close>

theorem archived_contracts_classified:
  "ExpiredContracts (renterContractsHandler inactive expired height current old) =
     (if expired then map buildContract (filter (\<lambda>c. ContractEndHeight c < height) old) else [])
   \<and> InactiveContracts (renterContractsHandler inactive expired height current old) =
     (if inactive then map buildContract (filter (\<lambda>c. \<not> UtilityGoodForRenew c) current) else [])
     @ (if inactive then map buildContract (filter (\<lambda>c. height \<le> ContractEndHeight c) old) else [])"
  by (simp add: renterContractsHandler_def Let_def currentLoop_fields oldLoop_fields)

text \<open>
  Against C9 as stated: with both lists requested at height 10, an archived contract that
  ends at height 10 is not expired but inactive.
\<close>

theorem contract_ending_now_is_inactive:
  "ContractEndHeight endingNow = 10
   \<and> ExpiredContracts (renterContractsHandler True True 10 [] [endingNow]) = []
   \<and> InactiveContracts (renterContractsHandler True True 10 [] [endingNow]) = [buildContract endingNow]"
  by (simp add: renterContractsHandler_def endingNow_def Let_def)

subsection \<open>C10: the collateral adjustment is total\<close>

text \<open>
  Claim C10. Whenever the normalisation constant is positive, which is a property of the
  coin precision alone, \<open>collateralAdjustments\<close> returns for every entry, allowance and
  expected storage: no division has a zero divisor, and the result is a finite float
  that is not negative. A number of hosts, a period or an expected storage of 0 counts
  as 1. At the allowance and the host in which every amount is 0, where the normalised
  cutoff truncates to 0 and is replaced by 1, the adjustment is 0.
\<close>

theorem collateralAdjustments_total:
  assumes "0 < priceDivNormalization prec"
  shows "(\<exists>w. collateralAdjustments prec entry allowance es = Some (Finite w) \<and> 0 \<le> w)
    \<and> collateralAdjustments prec entry allowance es =
        collateralAdjustments prec entry
          (allowance\<lparr>Hosts := if Hosts allowance = 0 then 1 else Hosts allowance,
                     Period := if Period allowance = 0 then 1 else Period allowance\<rparr>)
          (if es = 0 then 1 else es)"
proof
  show "\<exists>w. collateralAdjustments prec entry allowance es = Some (Finite w) \<and> 0 \<le> w"
    using assms by (rule collateralAdjustments_finite)
  show "collateralAdjustments prec entry allowance es =
        collateralAdjustments prec entry
          (allowance\<lparr>Hosts := if Hosts allowance = 0 then 1 else Hosts allowance,
                     Period := if Period allowance = 0 then 1 else Period allowance\<rparr>)
          (if es = 0 then 1 else es)"
    unfolding collateralAdjustments_def guards_idem ..
qed

theorem collateralAdjustments_total_witness:
  "0 < priceDivNormalization precision24
   \<and> (\<exists>w. collateralAdjustments precision24 (priced 0) degenerate 0 = Some (Finite w) \<and> 0 \<le> w)
   \<and> collateralAdjustments precision24 (priced 0) degenerate 0 =
        collateralAdjustments precision24 (priced 0)
          (degenerate\<lparr>Hosts := if Hosts degenerate = 0 then 1 else Hosts degenerate,
                     Period := if Period degenerate = 0 then 1 else Period degenerate\<rparr>)
          (if (0::uint64) = 0 then 1 else 0)
   \<and> collateralAdjustments precision24 (priced 0) degenerate 0 = Some (Finite 0)"
proof -
  have h: "0 < priceDivNormalization precision24"
    by (simp add: priceDivNormalization_24)
  have v: "collateralAdjustments precision24 (priced 0) degenerate 0 = Some (Finite 0)"
    by (simp add: collateralAdjustments_def collateralGuards_def hostCollateralOf_def priced_def
        degenerate_def priceDivNormalization_24 Mul64_def Div64_def Div_def Uint64_def
        MaxUint64_def f_of_uint64_def collateralExponentiationSmall_def
        collateralExponentiationLarge_def priceExponentiation_def Let_def)
  from collateralAdjustments_total[OF h, of "priced 0" degenerate 0] h v show ?thesis
    by blast
qed

end
